theory Spec2Isabelle
  imports Main "HOL-Library.AList"
begin

section \<open>The git policy fetcher of opal-server\<close>

text \<open>
  A shallow embedding of \<^verbatim>\<open>opal_server/git_fetcher.py\<close>: the class
  \<^verbatim>\<open>RepoInterface\<close> and the class \<^verbatim>\<open>GitPolicyFetcher\<close>.
  Python exceptions are values of \<open>py_error\<close>; a function that can raise returns
  \<open>py_error + 'a\<close> with \<open>Inl\<close> for the raised exception. Everything the
  fetcher does to the outside (log lines, network operations, the callback, writes of
  references) is recorded, in order, in a list of events. The named lock taken around a
  synchronize cycle serialises cycles and is released on every exit; in this sequential
  model it has no effect on the outcome and is left out.
\<close>

subsection \<open>Exceptions and events\<close>

datatype py_error =
    GitError
  | KeyError
  | ValueError
  | RuntimeError
  | InvalidGitRepositoryError
  | OtherException string

datatype log_level = DEBUG | INFO | WARNING | ERROR | EXCEPTION

datatype event =
    Log log_level
  | Fetch string
  | CloneRepository string string
  | Rmtree
  | CreateReference string string
  | SetTarget string string
  | OnUpdate "string option" string
  | RepoCommit string
  | MakeBundle string
  | MakeDiffBundle string string

subsection \<open>The local clone and the library operations the fetcher calls\<close>

text \<open>
  A repository as the fetcher sees it through pygit2: its configured remotes (name and
  url), its references (full name and the hex id of the commit each points to), the ids
  of the commits in its object store, and the reference that \<^verbatim>\<open>HEAD\<close> names.
  The directory at the clone path holds no repository, something that is found but cannot
  be opened, or a repository.
\<close>

record repository =
  remotes :: "(string \<times> string) list"
  references :: "(string \<times> string) list"
  objects :: "string list"
  head_name :: string

datatype clone_dir = NoDir | BrokenDir | RepoDir repository

text \<open>A \<^verbatim>\<open>pygit2.Reference\<close>: the name of the reference and the commit it pointed to
  when it was looked up.\<close>

type_synonym reference = "string \<times> string"

text \<open>
  The pygit2 operations, as far as the fetcher depends on them. A lookup that finds
  nothing raises \<^verbatim>\<open>KeyError\<close>; revision syntax beyond reference names and commit
  ids is outside the model. \<^verbatim>\<open>lookup_reference_dwim\<close> tries the short name under
  the prefixes of libgit2, in its order.
\<close>

definition Repository :: "clone_dir \<Rightarrow> py_error + repository" where
  "Repository d = (case d of RepoDir r \<Rightarrow> Inr r | _ \<Rightarrow> Inl GitError)"

definition lookup_reference :: "repository \<Rightarrow> string \<Rightarrow> py_error + reference" where
  "lookup_reference repo name =
     (case map_of (references repo) name of
        None \<Rightarrow> Inl KeyError
      | Some c \<Rightarrow> Inr (name, c))"

definition branches_local :: "repository \<Rightarrow> string \<Rightarrow> reference option" where
  "branches_local repo name =
     (case map_of (references repo) (''refs/heads/'' @ name) of
        None \<Rightarrow> None
      | Some c \<Rightarrow> Some (''refs/heads/'' @ name, c))"

definition branches_remote :: "repository \<Rightarrow> string \<Rightarrow> reference option" where
  "branches_remote repo name =
     (case map_of (references repo) (''refs/remotes/'' @ name) of
        None \<Rightarrow> None
      | Some c \<Rightarrow> Some (''refs/remotes/'' @ name, c))"

definition dwim_names :: "string \<Rightarrow> string list" where
  "dwim_names s =
     [s, ''refs/'' @ s, ''refs/tags/'' @ s, ''refs/heads/'' @ s,
      ''refs/remotes/'' @ s, ''refs/remotes/'' @ s @ ''/HEAD'']"

fun first_reference :: "repository \<Rightarrow> string list \<Rightarrow> reference option" where
  "first_reference repo [] = None"
| "first_reference repo (n # ns) =
     (case map_of (references repo) n of
        Some c \<Rightarrow> Some (n, c)
      | None \<Rightarrow> first_reference repo ns)"

definition lookup_reference_dwim :: "repository \<Rightarrow> string \<Rightarrow> py_error + reference" where
  "lookup_reference_dwim repo s =
     (case first_reference repo (dwim_names s) of
        None \<Rightarrow> Inl KeyError
      | Some r \<Rightarrow> Inr r)"

definition revparse_single :: "repository \<Rightarrow> string \<Rightarrow> py_error + string" where
  "revparse_single repo spec =
     (if spec \<in> set (objects repo) then Inr spec
      else case lookup_reference_dwim repo spec of
             Inl e \<Rightarrow> Inl e
           | Inr (n, c) \<Rightarrow> Inr c)"

definition resolve_refish :: "repository \<Rightarrow> string \<Rightarrow> py_error + string" where
  "resolve_refish repo refish =
     (case lookup_reference_dwim repo refish of
        Inr (n, c) \<Rightarrow> Inr c
      | Inl e \<Rightarrow> (if e = KeyError then revparse_single repo refish else Inl e))"

definition create_reference ::
    "repository \<Rightarrow> string \<Rightarrow> string \<Rightarrow> py_error + (reference \<times> repository)" where
  "create_reference repo name target =
     (case map_of (references repo) name of
        Some c \<Rightarrow> Inl ValueError
      | None \<Rightarrow>
          Inr ((name, target),
               repo\<lparr>references := AList.update name target (references repo)\<rparr>))"

definition set_target :: "repository \<Rightarrow> reference \<Rightarrow> string \<Rightarrow> repository" where
  "set_target repo ref target =
     repo\<lparr>references := AList.update (fst ref) target (references repo)\<rparr>"

definition remotes_getitem :: "repository \<Rightarrow> string \<Rightarrow> py_error + string" where
  "remotes_getitem repo name =
     (case map_of (remotes repo) name of
        None \<Rightarrow> Inl KeyError
      | Some url \<Rightarrow> Inr name)"

definition repo_head :: "repository \<Rightarrow> py_error + string" where
  "repo_head repo =
     (case map_of (references repo) (head_name repo) of
        None \<Rightarrow> Inl GitError
      | Some c \<Rightarrow> Inr c)"

text \<open>
  What lies beyond the process: the network side of \<^verbatim>\<open>clone_repository\<close> and of
  \<^verbatim>\<open>Remote.fetch\<close>, and the caller's callback. A clone raises or yields the new
  repository; a fetch leaves a repository behind and may raise as well (a failed fetch can
  have fetched part of the remote); the callback completes (\<open>None\<close>) or raises.
\<close>

record environment =
  clone_repository :: "string \<Rightarrow> string \<Rightarrow> py_error + repository"
  remote_fetch :: "repository \<Rightarrow> string \<Rightarrow> py_error option \<times> repository"
  on_update :: "string option \<Rightarrow> string \<Rightarrow> py_error option"

text \<open>The fields of a \<^verbatim>\<open>GitPolicyFetcher\<close> that the operations read.\<close>

record git_policy_fetcher =
  source_url :: string
  source_branch :: string
  remote_name :: string

subsection \<open>RepoInterface\<close>

definition create_local_branch_ref ::
    "repository \<Rightarrow> string \<Rightarrow> string \<Rightarrow> string
     \<Rightarrow> (py_error + (reference \<times> repository)) \<times> event list" where
  "create_local_branch_ref repo branch_name remote base_branch =
     (if branches_local repo branch_name = None then
        (let remote_branch = remote @ ''/'' @ branch_name;
             base_remote_branch = remote @ ''/'' @ base_branch;
             commit =
               (if branches_remote repo remote_branch \<noteq> None then
                  resolve_refish repo remote_branch
                else if branches_remote repo base_remote_branch \<noteq> None then
                  resolve_refish repo base_remote_branch
                else Inl RuntimeError)
         in case commit of
              Inl e \<Rightarrow> (Inl e, [])
            | Inr c \<Rightarrow>
                (case create_reference repo (''refs/heads/'' @ branch_name) c of
                   Inl e \<Rightarrow> (Inl e, [Log DEBUG])
                 | Inr (ref, repo') \<Rightarrow>
                     (Inr (ref, repo'),
                      [Log DEBUG, CreateReference (''refs/heads/'' @ branch_name) c])))
      else
        (case lookup_reference repo (''refs/heads/'' @ branch_name) of
           Inl e \<Rightarrow> (Inl e, [Log DEBUG])
         | Inr ref \<Rightarrow> (Inr (ref, repo), [Log DEBUG])))"

definition has_remote_branch :: "repository \<Rightarrow> string \<Rightarrow> string \<Rightarrow> py_error + bool" where
  "has_remote_branch repo branch remote =
     (case lookup_reference repo (''refs/remotes/'' @ remote @ ''/'' @ branch) of
        Inr ref \<Rightarrow> Inr True
      | Inl e \<Rightarrow> (if e = KeyError then Inr False else Inl e))"

definition get_local_branch ::
    "repository \<Rightarrow> string \<Rightarrow> py_error + reference option" where
  "get_local_branch repo branch =
     (case lookup_reference repo (''refs/heads/'' @ branch) of
        Inr ref \<Rightarrow> Inr (Some ref)
      | Inl e \<Rightarrow> (if e = KeyError then Inr None else Inl e))"

definition get_commit_hash ::
    "repository \<Rightarrow> string \<Rightarrow> string \<Rightarrow> py_error + string option" where
  "get_commit_hash repo branch remote =
     (case resolve_refish repo (remote @ ''/'' @ branch) of
        Inr c \<Rightarrow> Inr (Some c)
      | Inl e \<Rightarrow> (if e = GitError \<or> e = KeyError then Inr None else Inl e))"

fun verify_found_repo_matches_remote ::
    "(string \<times> string) list \<Rightarrow> string \<Rightarrow> (py_error + unit) \<times> event list" where
  "verify_found_repo_matches_remote [] expected_remote_url = (Inl ValueError, [Log ERROR])"
| "verify_found_repo_matches_remote ((name, url) # rs) expected_remote_url =
     (if url = expected_remote_url then (Inr (), [Log DEBUG])
      else verify_found_repo_matches_remote rs expected_remote_url)"

subsection \<open>GitPolicyFetcher: synchronize\<close>

definition discover_repository :: "clone_dir \<Rightarrow> bool" where
  "discover_repository d = (d \<noteq> NoDir)"

definition clone ::
    "environment \<Rightarrow> git_policy_fetcher \<Rightarrow> clone_dir
     \<Rightarrow> (py_error + unit) \<times> clone_dir \<times> event list" where
  "clone env f d =
     (let started = [Log INFO, CloneRepository (source_url f) (source_branch f)]
      in case clone_repository env (source_url f) (source_branch f) of
           Inl e \<Rightarrow>
             (if e = GitError then (Inr (), d, started @ [Log EXCEPTION])
              else (Inl e, d, started))
         | Inr repo \<Rightarrow>
             (case repo_head repo of
                Inl e \<Rightarrow> (Inl e, RepoDir repo, started @ [Log INFO])
              | Inr h \<Rightarrow>
                  (case on_update env None h of
                     Some e \<Rightarrow> (Inl e, RepoDir repo, started @ [Log INFO, OnUpdate None h])
                   | None \<Rightarrow> (Inr (), RepoDir repo, started @ [Log INFO, OnUpdate None h]))))"

definition get_valid_repo ::
    "git_policy_fetcher \<Rightarrow> clone_dir \<Rightarrow> (py_error + repository option) \<times> event list" where
  "get_valid_repo f d =
     (case Repository d of
        Inl e \<Rightarrow> (if e = GitError then (Inr None, [Log WARNING]) else (Inl e, []))
      | Inr repo \<Rightarrow>
          (case verify_found_repo_matches_remote (remotes repo) (source_url f) of
             (Inl e, tr) \<Rightarrow>
               (if e = GitError then (Inr None, tr @ [Log WARNING]) else (Inl e, tr))
           | (Inr u, tr) \<Rightarrow> (Inr (Some repo), tr)))"

definition should_fetch ::
    "git_policy_fetcher \<Rightarrow> repository \<Rightarrow> string option \<Rightarrow> bool
     \<Rightarrow> (py_error + bool) \<times> event list" where
  "should_fetch f repo hinted_hash force_fetch =
     (if force_fetch then (Inr True, [])
      else case has_remote_branch repo (source_branch f) (remote_name f) of
             Inl e \<Rightarrow> (Inl e, [])
           | Inr present \<Rightarrow>
               (if \<not> present then (Inr True, [Log INFO])
                else case hinted_hash of
                       Some h \<Rightarrow>
                         (case revparse_single repo h of
                            Inr c \<Rightarrow> (Inr False, [])
                          | Inl e \<Rightarrow>
                              (if e = KeyError then (Inr True, [Log INFO]) else (Inl e, [])))
                     | None \<Rightarrow> (Inr False, [])))"

definition notify_on_changes ::
    "environment \<Rightarrow> git_policy_fetcher \<Rightarrow> repository
     \<Rightarrow> (py_error + unit) \<times> repository \<times> event list" where
  "notify_on_changes env f repo =
     (case get_commit_hash repo (source_branch f) (remote_name f) of
        Inl e \<Rightarrow> (Inl e, repo, [])
      | Inr None \<Rightarrow> (Inr (), repo, [Log ERROR])
      | Inr (Some new_revision) \<Rightarrow>
          (case get_local_branch repo (source_branch f) of
             Inl e \<Rightarrow> (Inl e, repo, [])
           | Inr found \<Rightarrow>
               (let previous =
                      (case found of
                         None \<Rightarrow>
                           (case create_local_branch_ref repo (source_branch f)
                                   (remote_name f) (source_branch f) of
                              (Inl e, tr) \<Rightarrow> Inl (e, tr)
                            | (Inr (ref, repo'), tr) \<Rightarrow> Inr (None, ref, repo', tr))
                       | Some ref \<Rightarrow> Inr (Some (snd ref), ref, repo, []))
                in case previous of
                     Inl (e, tr) \<Rightarrow> (Inl e, repo, tr)
                   | Inr (old_revision, local_branch, repo', tr) \<Rightarrow>
                       (case on_update env old_revision new_revision of
                          Some e \<Rightarrow>
                            (Inl e, repo', tr @ [OnUpdate old_revision new_revision])
                        | None \<Rightarrow>
                            (Inr (), set_target repo' local_branch new_revision,
                             tr @ [OnUpdate old_revision new_revision,
                                   SetTarget (fst local_branch) new_revision])))))"

definition fetch_and_notify_on_changes ::
    "environment \<Rightarrow> git_policy_fetcher \<Rightarrow> string option \<Rightarrow> bool \<Rightarrow> clone_dir
     \<Rightarrow> (py_error + unit) \<times> clone_dir \<times> event list" where
  "fetch_and_notify_on_changes env f hinted_hash force_fetch d =
     (if discover_repository d then
        (case get_valid_repo f d of
           (Inl e, tr) \<Rightarrow> (Inl e, d, Log DEBUG # tr)
         | (Inr None, tr) \<Rightarrow>
             (case clone env f NoDir of
                (out, d', tr') \<Rightarrow> (out, d', Log DEBUG # tr @ [Log WARNING, Rmtree] @ tr'))
         | (Inr (Some repo), tr) \<Rightarrow>
             (case should_fetch f repo hinted_hash force_fetch of
                (Inl e, tr1) \<Rightarrow> (Inl e, d, Log DEBUG # tr @ tr1)
              | (Inr False, tr1) \<Rightarrow>
                  (case notify_on_changes env f repo of
                     (out, repo', tr2) \<Rightarrow> (out, RepoDir repo', Log DEBUG # tr @ tr1 @ tr2))
              | (Inr True, tr1) \<Rightarrow>
                  (case remotes_getitem repo (remote_name f) of
                     Inl e \<Rightarrow> (Inl e, d, Log DEBUG # tr @ tr1 @ [Log DEBUG])
                   | Inr r \<Rightarrow>
                       (case remote_fetch env repo r of
                          (Some e, repo1) \<Rightarrow>
                            (Inl e, RepoDir repo1, Log DEBUG # tr @ tr1 @ [Log DEBUG, Fetch r])
                        | (None, repo1) \<Rightarrow>
                            (case notify_on_changes env f repo1 of
                               (out, repo', tr2) \<Rightarrow>
                                 (out, RepoDir repo',
                                  Log DEBUG # tr @ tr1 @ [Log DEBUG, Fetch r, Log DEBUG] @ tr2))))))
      else
        (case clone env f d of
           (out, d', tr') \<Rightarrow> (out, d', Log INFO # tr')))"

subsection \<open>GitPolicyFetcher: make_bundle\<close>

text \<open>
  \<^verbatim>\<open>make_bundle\<close> opens the clone a second time through GitPython and hands commits
  to the bundle maker, which is a collaborator outside this file: its two operations are
  parameters. \<^verbatim>\<open>Repo.commit\<close> resolves a revision to a commit; a revision that does
  not resolve raises \<^verbatim>\<open>ValueError\<close>, the exception the source handles.
\<close>

record 'b bundle_maker =
  bm_make_bundle :: "string \<Rightarrow> py_error + 'b"
  bm_make_diff_bundle :: "string \<Rightarrow> string \<Rightarrow> py_error + 'b"

definition Repo :: "clone_dir \<Rightarrow> py_error + repository" where
  "Repo d = (case d of RepoDir r \<Rightarrow> Inr r | _ \<Rightarrow> Inl InvalidGitRepositoryError)"

definition repo_commit :: "repository \<Rightarrow> string \<Rightarrow> py_error + string" where
  "repo_commit repo revision =
     (case revparse_single repo revision of
        Inr c \<Rightarrow> Inr c
      | Inl e \<Rightarrow> Inl ValueError)"

definition get_current_branch_head ::
    "git_policy_fetcher \<Rightarrow> clone_dir \<Rightarrow> (py_error + string) \<times> event list" where
  "get_current_branch_head f d =
     (case Repository d of
        Inl e \<Rightarrow> (Inl e, [])
      | Inr repo \<Rightarrow>
          (case get_commit_hash repo (source_branch f) (remote_name f) of
             Inl e \<Rightarrow> (Inl e, [])
           | Inr None \<Rightarrow> (Inl ValueError, [Log ERROR])
           | Inr (Some head_commit_hash) \<Rightarrow>
               (if head_commit_hash = [] then (Inl ValueError, [Log ERROR])
                else (Inr head_commit_hash, []))))"

definition make_bundle ::
    "'b bundle_maker \<Rightarrow> git_policy_fetcher \<Rightarrow> clone_dir \<Rightarrow> string option
     \<Rightarrow> (py_error + 'b) \<times> event list" where
  "make_bundle bm f d base_hash =
     (case Repo d of
        Inl e \<Rightarrow> (Inl e, [])
      | Inr repo \<Rightarrow>
          (case get_current_branch_head f d of
             (Inl e, tr) \<Rightarrow> (Inl e, tr)
           | (Inr head, tr) \<Rightarrow>
               (case repo_commit repo head of
                  Inl e \<Rightarrow> (Inl e, tr @ [RepoCommit head])
                | Inr current_head_commit \<Rightarrow>
                    (let full = (\<lambda>tr'. (bm_make_bundle bm current_head_commit,
                                         tr' @ [MakeBundle current_head_commit]));
                         tr1 = tr @ [RepoCommit head]
                     in case base_hash of
                          None \<Rightarrow> full tr1
                        | Some b \<Rightarrow>
                            (if b = [] then full tr1
                             else case repo_commit repo b of
                                    Inl e \<Rightarrow>
                                      (if e = ValueError then full (tr1 @ [RepoCommit b])
                                       else (Inl e, tr1 @ [RepoCommit b]))
                                  | Inr base_commit \<Rightarrow>
                                      (let tr2 = tr1 @ [RepoCommit b,
                                                  MakeDiffBundle base_commit current_head_commit]
                                       in case bm_make_diff_bundle bm base_commit
                                                 current_head_commit of
                                            Inl e \<Rightarrow>
                                              (if e = ValueError then full tr2 else (Inl e, tr2))
                                          | Inr bundle \<Rightarrow> (Inr bundle, tr2)))))))"

subsection \<open>Sequences of cycles, and what a trace says\<close>

text \<open>The notifications delivered in a trace, in order: the arguments of each call of
  the callback.\<close>

fun notifications :: "event list \<Rightarrow> (string option \<times> string) list" where
  "notifications [] = []"
| "notifications (OnUpdate old new # es) = (old, new) # notifications es"
| "notifications (e # es) = notifications es"

text \<open>\<open>n\<close> synchronize cycles in a row with no hint and no force, each on the clone
  directory the previous one left; the traces are concatenated. A cycle that raised is
  followed by the next one, as a scheduler that calls again would do.\<close>

fun synchronize_repeatedly ::
    "environment \<Rightarrow> git_policy_fetcher \<Rightarrow> nat \<Rightarrow> clone_dir \<Rightarrow> clone_dir \<times> event list" where
  "synchronize_repeatedly env f 0 d = (d, [])"
| "synchronize_repeatedly env f (Suc n) d =
     (case fetch_and_notify_on_changes env f None False d of
        (out, d', tr) \<Rightarrow>
          (case synchronize_repeatedly env f n d' of
             (d'', tr') \<Rightarrow> (d'', tr @ tr')))"

text \<open>
  A cycle on the valid clone \<open>repo\<close> reaches change detection on \<open>repo1\<close>: the clone
  passes verification and either no fetch is decided and \<open>repo1\<close> is \<open>repo\<close>, or the
  fetch of the configured remote completes and leaves \<open>repo1\<close>.
\<close>

definition change_detection_on ::
    "environment \<Rightarrow> git_policy_fetcher \<Rightarrow> string option \<Rightarrow> bool
     \<Rightarrow> repository \<Rightarrow> repository \<Rightarrow> bool" where
  "change_detection_on env f hinted_hash force_fetch repo repo1 =
     (fst (verify_found_repo_matches_remote (remotes repo) (source_url f)) = Inr () \<and>
      (case fst (should_fetch f repo hinted_hash force_fetch) of
         Inl e \<Rightarrow> False
       | Inr False \<Rightarrow> repo1 = repo
       | Inr True \<Rightarrow>
           remotes_getitem repo (remote_name f) = Inr (remote_name f) \<and>
           remote_fetch env repo (remote_name f) = (None, repo1)))"

subsection \<open>A concrete source and concrete clones\<close>

definition policy_source :: git_policy_fetcher where
  "policy_source =
     \<lparr>source_url = ''https://example.org/policy.git'', source_branch = ''main'',
      remote_name = ''origin''\<rparr>"

text \<open>A clone of the source at commit \<open>c1\<close>, as \<^verbatim>\<open>clone_repository\<close> with
  \<^verbatim>\<open>checkout_branch\<close> leaves it.\<close>

definition clone_at_c1 :: repository where
  "clone_at_c1 =
     \<lparr>remotes = [(''origin'', ''https://example.org/policy.git'')],
      references = [(''refs/heads/main'', ''c1''), (''refs/remotes/origin/main'', ''c1'')],
      objects = [''c1''],
      head_name = ''refs/heads/main''\<rparr>"

text \<open>The same clone after a fetch that brought commit \<open>c2\<close>: the remote branch is at
  \<open>c2\<close>, the local branch still at \<open>c1\<close>.\<close>

definition clone_behind :: repository where
  "clone_behind =
     \<lparr>remotes = [(''origin'', ''https://example.org/policy.git'')],
      references = [(''refs/heads/main'', ''c1''), (''refs/remotes/origin/main'', ''c2'')],
      objects = [''c1'', ''c2''],
      head_name = ''refs/heads/main''\<rparr>"

text \<open>A clone whose only remote points at another url.\<close>

definition clone_of_other :: repository where
  "clone_of_other =
     \<lparr>remotes = [(''origin'', ''https://example.org/other.git'')],
      references = [(''refs/heads/main'', ''c1''), (''refs/remotes/origin/main'', ''c1'')],
      objects = [''c1''],
      head_name = ''refs/heads/main''\<rparr>"

text \<open>A clone of the source made for the branch \<open>master\<close>: the branch \<open>main\<close> is
  known neither locally nor among the remote's branches.\<close>

definition clone_without_main :: repository where
  "clone_without_main =
     \<lparr>remotes = [(''origin'', ''https://example.org/policy.git'')],
      references = [(''refs/heads/master'', ''c1''), (''refs/remotes/origin/master'', ''c1'')],
      objects = [''c1''],
      head_name = ''refs/heads/master''\<rparr>"

text \<open>A clone in which the remote branch \<open>main\<close> is known at \<open>c2\<close> and no local
  branch \<open>main\<close> exists yet (a second source on the same url, first sync of its branch).\<close>

definition clone_new_branch :: repository where
  "clone_new_branch =
     \<lparr>remotes = [(''origin'', ''https://example.org/policy.git'')],
      references = [(''refs/heads/master'', ''c1''), (''refs/remotes/origin/master'', ''c1''),
                    (''refs/remotes/origin/main'', ''c2'')],
      objects = [''c1'', ''c2''],
      head_name = ''refs/heads/master''\<rparr>"

text \<open>A clone in which \<open>origin/main\<close> resolves only through a tag of that name.\<close>

definition clone_with_tag :: repository where
  "clone_with_tag =
     \<lparr>remotes = [(''origin'', ''https://example.org/policy.git'')],
      references = [(''refs/heads/master'', ''c1''), (''refs/remotes/origin/master'', ''c1''),
                    (''refs/tags/origin/main'', ''c1'')],
      objects = [''c1''],
      head_name = ''refs/heads/master''\<rparr>"

text \<open>Environments: the remote clones to \<open>clone_at_c1\<close>; a fetch brings nothing new, or
  fails; the callback completes, or raises.\<close>

definition quiet_remote :: environment where
  "quiet_remote =
     \<lparr>clone_repository = (\<lambda>url branch. Inr clone_at_c1),
      remote_fetch = (\<lambda>repo r. (None, repo)),
      on_update = (\<lambda>old new. None)\<rparr>"

definition unreachable_remote :: environment where
  "unreachable_remote =
     \<lparr>clone_repository = (\<lambda>url branch. Inl GitError),
      remote_fetch = (\<lambda>repo r. (Some GitError, repo)),
      on_update = (\<lambda>old new. None)\<rparr>"

text \<open>A remote on which the clone fails with an error that is not the library's
  \<^verbatim>\<open>GitError\<close>: a lookup that finds nothing, such as the branch to check out, is
  raised by pygit2 as \<^verbatim>\<open>KeyError\<close>.\<close>

definition remote_without_branch :: environment where
  "remote_without_branch =
     \<lparr>clone_repository = (\<lambda>url branch. Inl KeyError),
      remote_fetch = (\<lambda>repo r. (None, repo)),
      on_update = (\<lambda>old new. None)\<rparr>"

definition failing_callback :: environment where
  "failing_callback =
     \<lparr>clone_repository = (\<lambda>url branch. Inr clone_at_c1),
      remote_fetch = (\<lambda>repo r. (None, repo)),
      on_update = (\<lambda>old new. Some (OtherException ''callback failed''))\<rparr>"

datatype policy_bundle = FullBundle string | DiffBundle string string

definition plain_bundle_maker :: "policy_bundle bundle_maker" where
  "plain_bundle_maker =
     \<lparr>bm_make_bundle = (\<lambda>c. Inr (FullBundle c)),
      bm_make_diff_bundle = (\<lambda>b c. Inr (DiffBundle b c))\<rparr>"

lemmas library_defs =
  Repository_def lookup_reference_def branches_local_def branches_remote_def dwim_names_def
  lookup_reference_dwim_def revparse_single_def resolve_refish_def create_reference_def
  set_target_def remotes_getitem_def repo_head_def Repo_def repo_commit_def

lemmas fetcher_defs =
  create_local_branch_ref_def has_remote_branch_def get_local_branch_def get_commit_hash_def
  discover_repository_def clone_def get_valid_repo_def should_fetch_def notify_on_changes_def
  fetch_and_notify_on_changes_def get_current_branch_head_def make_bundle_def

lemmas example_defs =
  policy_source_def clone_at_c1_def clone_behind_def clone_of_other_def
  clone_without_main_def clone_new_branch_def clone_with_tag_def quiet_remote_def
  unreachable_remote_def remote_without_branch_def failing_callback_def plain_bundle_maker_def

section \<open>Properties\<close>

subsection \<open>What the library operations can raise\<close>

lemma lookup_reference_dwim_error: "lookup_reference_dwim repo n = Inl e \<Longrightarrow> e = KeyError"
  by (auto simp: lookup_reference_dwim_def split: option.splits)

lemma revparse_single_error: "revparse_single repo n = Inl e \<Longrightarrow> e = KeyError"
  by (auto simp: revparse_single_def split: if_splits sum.splits
           dest: lookup_reference_dwim_error)

lemma repo_commit_error: "repo_commit repo n = Inl e \<Longrightarrow> e = ValueError"
  by (auto simp: repo_commit_def split: sum.splits)

subsection \<open>The fetch decision\<close>

text \<open>
  Claim C6. On a valid local clone the fetch decision is: fetch when force is set; else
  fetch when the tracked branch is absent among the remote's known branches; else, with a
  hinted commit, skip the fetch when the hint resolves locally and fetch when it does not;
  else (no hint, no force, branch present) skip the fetch. The decision never raises.
\<close>

theorem should_fetch_decision:
  "fst (should_fetch f repo hinted_hash force_fetch) =
     Inr (if force_fetch then True
          else if has_remote_branch repo (source_branch f) (remote_name f) = Inr False then True
          else case hinted_hash of
                 Some h \<Rightarrow> isl (revparse_single repo h)
               | None \<Rightarrow> False)"
  by (auto simp: should_fetch_def has_remote_branch_def lookup_reference_def
           split: option.splits sum.splits dest: revparse_single_error)

theorem should_fetch_decision_witness:
  "fst (should_fetch policy_source clone_at_c1 (Some ''c2'') False) = Inr True \<and>
   fst (should_fetch policy_source clone_at_c1 (Some ''c1'') False) = Inr False \<and>
   fst (should_fetch policy_source clone_without_main (Some ''c1'') False) = Inr True \<and>
   fst (should_fetch policy_source clone_at_c1 None False) = Inr False \<and>
   fst (should_fetch policy_source clone_at_c1 None True) = Inr True"
  using should_fetch_decision [of policy_source clone_at_c1 "Some ''c2''" False]
        should_fetch_decision [of policy_source clone_at_c1 "Some ''c1''" False]
        should_fetch_decision [of policy_source clone_without_main "Some ''c1''" False]
        should_fetch_decision [of policy_source clone_at_c1 None False]
        should_fetch_decision [of policy_source clone_at_c1 None True]
  by (simp add: has_remote_branch_def library_defs example_defs)

subsection \<open>Bundles\<close>

text \<open>
  Claim C10. \<^verbatim>\<open>make_bundle\<close> treats the empty string as base like an absent base:
  the result and every step taken are those of the call without a base, the base is never
  resolved and no diff bundle is asked for. Whenever the current head of the tracked branch
  is found, the result is the bundle maker's full snapshot of the commit of that head, and
  the bundle maker is asked for exactly that.
\<close>

theorem make_bundle_empty_base:
  "make_bundle bm f d (Some []) = make_bundle bm f d None \<and>
   RepoCommit [] \<notin> set (snd (make_bundle bm f d (Some []))) \<and>
   (\<forall>b c. MakeDiffBundle b c \<notin> set (snd (make_bundle bm f d (Some [])))) \<and>
   (\<forall>repo h c. Repo d = Inr repo \<and> fst (get_current_branch_head f d) = Inr h \<and>
               repo_commit repo h = Inr c
               \<longrightarrow> make_bundle bm f d (Some []) =
                     (bm_make_bundle bm c,
                      snd (get_current_branch_head f d) @ [RepoCommit h, MakeBundle c]))"
  by (auto simp: make_bundle_def get_current_branch_head_def Let_def
           split: sum.splits prod.splits option.splits if_splits)

theorem make_bundle_empty_base_witness:
  "Repo (RepoDir clone_behind) = Inr clone_behind \<and>
   get_current_branch_head policy_source (RepoDir clone_behind) = (Inr ''c2'', []) \<and>
   repo_commit clone_behind ''c2'' = Inr ''c2'' \<and>
   make_bundle plain_bundle_maker policy_source (RepoDir clone_behind) (Some []) =
     (Inr (FullBundle ''c2''), [RepoCommit ''c2'', MakeBundle ''c2'']) \<and>
   Repo (RepoDir clone_at_c1) = Inr clone_at_c1 \<and>
   get_current_branch_head policy_source (RepoDir clone_at_c1) = (Inr ''c1'', []) \<and>
   repo_commit clone_at_c1 ''c1'' = Inr ''c1'' \<and>
   make_bundle plain_bundle_maker policy_source (RepoDir clone_at_c1) (Some []) =
     (Inr (FullBundle ''c1''), [RepoCommit ''c1'', MakeBundle ''c1''])"
proof -
  have behind: "Repo (RepoDir clone_behind) = Inr clone_behind \<and>
                get_current_branch_head policy_source (RepoDir clone_behind) = (Inr ''c2'', []) \<and>
                repo_commit clone_behind ''c2'' = Inr ''c2''"
    by (simp add: get_current_branch_head_def get_commit_hash_def library_defs example_defs)
  have at_c1: "Repo (RepoDir clone_at_c1) = Inr clone_at_c1 \<and>
               get_current_branch_head policy_source (RepoDir clone_at_c1) = (Inr ''c1'', []) \<and>
               repo_commit clone_at_c1 ''c1'' = Inr ''c1''"
    by (simp add: get_current_branch_head_def get_commit_hash_def library_defs example_defs)
  have full: "bm_make_bundle plain_bundle_maker ''c2'' = Inr (FullBundle ''c2'')"
             "bm_make_bundle plain_bundle_maker ''c1'' = Inr (FullBundle ''c1'')"
    by (simp_all add: plain_bundle_maker_def)
  from make_bundle_empty_base [of plain_bundle_maker policy_source "RepoDir clone_behind"]
       behind
  have "make_bundle plain_bundle_maker policy_source (RepoDir clone_behind) (Some []) =
          (bm_make_bundle plain_bundle_maker ''c2'',
           snd (get_current_branch_head policy_source (RepoDir clone_behind))
             @ [RepoCommit ''c2'', MakeBundle ''c2''])"
    by (metis fst_conv)
  with behind full
  have r2: "make_bundle plain_bundle_maker policy_source (RepoDir clone_behind) (Some []) =
              (Inr (FullBundle ''c2''), [RepoCommit ''c2'', MakeBundle ''c2''])"
    by simp
  from make_bundle_empty_base [of plain_bundle_maker policy_source "RepoDir clone_at_c1"]
       at_c1
  have "make_bundle plain_bundle_maker policy_source (RepoDir clone_at_c1) (Some []) =
          (bm_make_bundle plain_bundle_maker ''c1'',
           snd (get_current_branch_head policy_source (RepoDir clone_at_c1))
             @ [RepoCommit ''c1'', MakeBundle ''c1''])"
    by (metis fst_conv)
  with at_c1 full
  have r1: "make_bundle plain_bundle_maker policy_source (RepoDir clone_at_c1) (Some []) =
              (Inr (FullBundle ''c1''), [RepoCommit ''c1'', MakeBundle ''c1''])"
    by simp
  from behind at_c1 r1 r2 show ?thesis by simp
qed

subsection \<open>Synchronize: errors that reach the caller\<close>

text \<open>
  Claim C1 says that a clone none of whose remotes has the source's url is deleted and
  cloned afresh without raising. The verification raises \<^verbatim>\<open>ValueError\<close>, the handler
  around it catches \<^verbatim>\<open>pygit2.GitError\<close> only: on the clone of another url the cycle
  raises \<^verbatim>\<open>ValueError\<close> to the caller, nothing is deleted and nothing is cloned.
\<close>

theorem mismatched_remote_raises:
  "fetch_and_notify_on_changes quiet_remote policy_source None False (RepoDir clone_of_other) =
     (Inl ValueError, RepoDir clone_of_other, [Log DEBUG, Log ERROR])"
  by (simp add: fetcher_defs library_defs example_defs)

text \<open>
  Claim C3 says that a transport error of the fetch is caught and logged and ends the
  cycle without raising. The fetch has no handler (the clone has one): with a forced fetch
  against an unreachable remote the cycle raises \<^verbatim>\<open>GitError\<close> to the caller and logs
  nothing after the fetch.
\<close>

theorem failed_fetch_raises:
  "fetch_and_notify_on_changes unreachable_remote policy_source None True (RepoDir clone_at_c1) =
     (Inl GitError, RepoDir clone_at_c1, [Log DEBUG, Log DEBUG, Log DEBUG, Fetch ''origin''])"
  by (simp add: fetcher_defs library_defs example_defs)

subsection \<open>Synchronize: no local clone\<close>




subsection \<open>Synchronize: the hint\<close>

lemma verify_ok:
  "fst (verify_found_repo_matches_remote rs url) = Inr () \<Longrightarrow>
   verify_found_repo_matches_remote rs url = (Inr (), [Log DEBUG])"
  by (induction rs url rule: verify_found_repo_matches_remote.induct) (auto split: if_splits)

lemma notify_on_changes_no_fetch: "Fetch r \<notin> set (snd (snd (notify_on_changes env f repo)))"
  by (auto simp: notify_on_changes_def create_local_branch_ref_def Let_def
           split: sum.splits option.splits prod.splits if_splits)

text \<open>
  Claim C7, amended. On a valid local clone on which the tracked branch is present among
  the remote's known branches, a cycle without force whose hinted commit resolves locally
  performs no fetch, whatever the remote and the callback do.
\<close>

theorem hint_skips_fetch:
  assumes "fst (verify_found_repo_matches_remote (remotes repo) (source_url f)) = Inr ()"
    and "has_remote_branch repo (source_branch f) (remote_name f) = Inr True"
    and "revparse_single repo h = Inr c"
  shows "\<forall>r. Fetch r \<notin> set (snd (snd (fetch_and_notify_on_changes env f (Some h) False
                                       (RepoDir repo))))"
  using assms notify_on_changes_no_fetch [of _ env f repo]
  by (auto simp: fetch_and_notify_on_changes_def discover_repository_def get_valid_repo_def
        Repository_def should_fetch_def dest!: verify_ok split: prod.splits)

theorem hint_skips_fetch_witness:
  "fst (verify_found_repo_matches_remote (remotes clone_behind) (source_url policy_source))
     = Inr () \<and>
   has_remote_branch clone_behind (source_branch policy_source) (remote_name policy_source)
     = Inr True \<and>
   revparse_single clone_behind ''c2'' = Inr ''c2'' \<and>
   (\<forall>r. Fetch r \<notin> set (snd (snd (fetch_and_notify_on_changes quiet_remote policy_source
                                  (Some ''c2'') False (RepoDir clone_behind)))))"
proof -
  have a: "fst (verify_found_repo_matches_remote (remotes clone_behind)
                  (source_url policy_source)) = Inr ()"
    by (simp add: example_defs)
  have b: "has_remote_branch clone_behind (source_branch policy_source)
             (remote_name policy_source) = Inr True"
    by (simp add: has_remote_branch_def library_defs example_defs)
  have c: "revparse_single clone_behind ''c2'' = Inr ''c2''"
    by (simp add: library_defs example_defs)
  from hint_skips_fetch [OF a b c] a b c show ?thesis by blast
qed

text \<open>
  The claim as stated, for every valid clone, fails: the check for the tracked branch comes
  before the hint. On a valid clone that does not know \<open>origin/main\<close>, the hint \<open>c1\<close>
  resolves locally and the cycle fetches all the same.
\<close>

theorem hint_skips_fetch_counterexample:
  "fst (verify_found_repo_matches_remote (remotes clone_without_main)
          (source_url policy_source)) = Inr () \<and>
   revparse_single clone_without_main ''c1'' = Inr ''c1'' \<and>
   Fetch ''origin'' \<in> set (snd (snd (fetch_and_notify_on_changes quiet_remote policy_source
                                  (Some ''c1'') False (RepoDir clone_without_main))))"
  by (simp add: fetcher_defs library_defs example_defs)

subsection \<open>Bundles against a base that does not resolve\<close>

text \<open>
  Claim C8, amended. \<^verbatim>\<open>make_bundle\<close> with a base commit that does not resolve
  returns what \<^verbatim>\<open>make_bundle\<close> without a base returns, and raises exactly when that
  call raises: whenever the current head of the tracked branch is found, the result is the
  bundle maker's full snapshot of that head.
\<close>

theorem make_bundle_unresolvable_base:
  assumes "\<And>repo. Repo d = Inr repo \<Longrightarrow> repo_commit repo b = Inl ValueError"
  shows "fst (make_bundle bm f d (Some b)) = fst (make_bundle bm f d None) \<and>
         (\<forall>repo h c. Repo d = Inr repo \<and> fst (get_current_branch_head f d) = Inr h \<and>
                     repo_commit repo h = Inr c
                     \<longrightarrow> fst (make_bundle bm f d (Some b)) = bm_make_bundle bm c)"
  using assms
  by (auto simp: make_bundle_def Let_def split: sum.splits prod.splits)

theorem make_bundle_unresolvable_base_witness:
  "repo_commit clone_behind ''deadbeef'' = Inl ValueError \<and>
   fst (make_bundle plain_bundle_maker policy_source (RepoDir clone_behind) (Some ''deadbeef''))
     = Inr (FullBundle ''c2'') \<and>
   fst (make_bundle plain_bundle_maker policy_source (RepoDir clone_behind) None)
     = Inr (FullBundle ''c2'')"
proof -
  have u: "repo_commit clone_behind ''deadbeef'' = Inl ValueError"
    by (simp add: library_defs example_defs)
  then have u': "\<And>repo. Repo (RepoDir clone_behind) = Inr repo
                   \<Longrightarrow> repo_commit repo ''deadbeef'' = Inl ValueError"
    by (simp add: Repo_def)
  have h: "Repo (RepoDir clone_behind) = Inr clone_behind \<and>
           fst (get_current_branch_head policy_source (RepoDir clone_behind)) = Inr ''c2'' \<and>
           repo_commit clone_behind ''c2'' = Inr ''c2''"
    by (simp add: fetcher_defs library_defs example_defs)
  have m: "bm_make_bundle plain_bundle_maker ''c2'' = Inr (FullBundle ''c2'')"
    by (simp add: plain_bundle_maker_def)
  from make_bundle_unresolvable_base [of "RepoDir clone_behind" "''deadbeef''"
                                         plain_bundle_maker policy_source, OF u']
       h m u
  show ?thesis by metis
qed

text \<open>
  The claim as stated also says that the call never raises. On a clone in which the head of
  the tracked branch cannot be found, \<^verbatim>\<open>_get_current_branch_head\<close> raises
  \<^verbatim>\<open>ValueError\<close> before the base is looked at.
\<close>

theorem make_bundle_never_raises_counterexample:
  "repo_commit clone_without_main ''deadbeef'' = Inl ValueError \<and>
   make_bundle plain_bundle_maker policy_source (RepoDir clone_without_main) (Some ''deadbeef'')
     = (Inl ValueError, [Log ERROR])"
  by (simp add: fetcher_defs library_defs example_defs)

subsection \<open>Synchronize: change detection\<close>

lemma notifications_append: "notifications (xs @ ys) = notifications xs @ notifications ys"
  by (induction xs rule: notifications.induct) auto

lemma sync_change_detection:
  assumes "change_detection_on env f hinted_hash force_fetch repo repo1"
  shows "\<exists>pre. (\<forall>e \<in> set pre. e = Log DEBUG \<or> e = Log INFO \<or> e = Fetch (remote_name f)) \<and>
           fetch_and_notify_on_changes env f hinted_hash force_fetch (RepoDir repo) =
             (fst (notify_on_changes env f repo1),
              RepoDir (fst (snd (notify_on_changes env f repo1))),
              pre @ snd (snd (notify_on_changes env f repo1)))"
proof -
  from assms have v: "verify_found_repo_matches_remote (remotes repo) (source_url f) = (Inr (), [Log DEBUG])"
    by (simp add: change_detection_on_def verify_ok)
  obtain dec tr1 where sf: "should_fetch f repo hinted_hash force_fetch = (dec, tr1)"
    by (cases "should_fetch f repo hinted_hash force_fetch")
  have tr1: "\<forall>e \<in> set tr1. e = Log INFO"
    using sf by (auto simp: should_fetch_def split: if_splits sum.splits option.splits)
  show ?thesis
  proof (cases dec)
    case (Inl e)
    with assms sf show ?thesis by (simp add: change_detection_on_def)
  next
    case (Inr b)
    show ?thesis
    proof (cases b)
      case False
      with Inr assms sf have "repo1 = repo" by (simp add: change_detection_on_def)
      with False Inr sf v tr1 show ?thesis
        by (intro exI [of _ "Log DEBUG # [Log DEBUG] @ tr1"])
           (auto simp: fetch_and_notify_on_changes_def discover_repository_def
              get_valid_repo_def Repository_def split: prod.splits)
    next
      case True
      with Inr assms sf have g: "remotes_getitem repo (remote_name f) = Inr (remote_name f)"
        and ft: "remote_fetch env repo (remote_name f) = (None, repo1)"
        by (simp_all add: change_detection_on_def)
      with True Inr sf v tr1 show ?thesis
        by (intro exI [of _ "Log DEBUG # [Log DEBUG] @ tr1 @ [Log DEBUG, Fetch (remote_name f), Log DEBUG]"])
           (auto simp: fetch_and_notify_on_changes_def discover_repository_def
              get_valid_repo_def Repository_def split: prod.splits)
    qed
  qed
qed

lemma notifications_prefix:
  "\<forall>e \<in> set pre. e = Log DEBUG \<or> e = Log INFO \<or> e = Fetch r \<Longrightarrow> notifications pre = []"
  by (induction pre) auto

lemma get_local_branch_None:
  "get_local_branch repo b = Inr None \<Longrightarrow> branches_local repo b = None"
  by (auto simp: get_local_branch_def lookup_reference_def branches_local_def
           split: option.splits if_splits)

lemma get_local_branch_Some:
  "get_local_branch repo b = Inr (Some (name, old)) \<Longrightarrow>
   name = ''refs/heads/'' @ b \<and> map_of (references repo) name = Some old"
  by (auto simp: get_local_branch_def lookup_reference_def split: option.splits if_splits)

lemma notify_unresolved:
  "get_commit_hash repo (source_branch f) (remote_name f) = Inr None \<Longrightarrow>
   notify_on_changes env f repo = (Inr (), repo, [Log ERROR])"
  by (simp add: notify_on_changes_def)

lemma notify_branch_not_found:
  assumes "get_commit_hash repo (source_branch f) (remote_name f) = Inr (Some h)"
    and "get_local_branch repo (source_branch f) = Inr None"
    and "branches_remote repo (remote_name f @ ''/'' @ source_branch f) = None"
  shows "notify_on_changes env f repo = (Inl RuntimeError, repo, [])"
  using assms get_local_branch_None [OF assms(2)]
  by (simp add: notify_on_changes_def create_local_branch_ref_def)

lemma notify_existing:
  assumes "get_commit_hash repo (source_branch f) (remote_name f) = Inr (Some new)"
    and "get_local_branch repo (source_branch f) = Inr (Some (name, old))"
  shows "notify_on_changes env f repo =
     (case on_update env (Some old) new of
        Some e \<Rightarrow> (Inl e, repo, [OnUpdate (Some old) new])
      | None \<Rightarrow> (Inr (), set_target repo (name, old) new,
                 [OnUpdate (Some old) new, SetTarget name new]))"
  using assms by (simp add: notify_on_changes_def split: option.splits)

text \<open>
  Claim C4, amended. When a cycle on a valid clone reaches change detection, the remote
  head of the tracked branch resolves, no local branch exists so that a tracking ref must
  be created, and neither the tracked branch nor the base branch (the cycle passes the
  tracked branch as base) exists among the remote's branches, the cycle fails with the
  "branch not found" error, propagated to the caller before any notification. When the
  remote head does not resolve, the cycle logs an error and ends without raising and
  without a notification. The "branch not found" error is not the only one that reaches
  the caller: an exception raised by the callback is propagated as well.
\<close>

theorem branch_not_found_propagated:
  assumes "change_detection_on env f hinted_hash force_fetch repo repo1"
  shows "(get_commit_hash repo1 (source_branch f) (remote_name f) = Inr (Some h) \<and>
          get_local_branch repo1 (source_branch f) = Inr None \<and>
          branches_remote repo1 (remote_name f @ ''/'' @ source_branch f) = None
          \<longrightarrow> fst (fetch_and_notify_on_changes env f hinted_hash force_fetch (RepoDir repo))
                = Inl RuntimeError \<and>
              fst (snd (fetch_and_notify_on_changes env f hinted_hash force_fetch (RepoDir repo)))
                = RepoDir repo1 \<and>
              notifications (snd (snd (fetch_and_notify_on_changes env f hinted_hash force_fetch
                                         (RepoDir repo)))) = [])
       \<and> (get_commit_hash repo1 (source_branch f) (remote_name f) = Inr None
          \<longrightarrow> fst (fetch_and_notify_on_changes env f hinted_hash force_fetch (RepoDir repo))
                = Inr () \<and>
              fst (snd (fetch_and_notify_on_changes env f hinted_hash force_fetch (RepoDir repo)))
                = RepoDir repo1 \<and>
              notifications (snd (snd (fetch_and_notify_on_changes env f hinted_hash force_fetch
                                         (RepoDir repo)))) = [] \<and>
              last (snd (snd (fetch_and_notify_on_changes env f hinted_hash force_fetch
                                (RepoDir repo)))) = Log ERROR)
       \<and> (get_commit_hash repo1 (source_branch f) (remote_name f) = Inr (Some h) \<and>
          get_local_branch repo1 (source_branch f) = Inr (Some ref) \<and>
          on_update env (Some (snd ref)) h = Some e
          \<longrightarrow> fst (fetch_and_notify_on_changes env f hinted_hash force_fetch (RepoDir repo))
                = Inl e)"
proof -
  from sync_change_detection [OF assms] obtain pre where
    pre: "\<forall>e \<in> set pre. e = Log DEBUG \<or> e = Log INFO \<or> e = Fetch (remote_name f)"
    and run: "fetch_and_notify_on_changes env f hinted_hash force_fetch (RepoDir repo) =
             (fst (notify_on_changes env f repo1),
              RepoDir (fst (snd (notify_on_changes env f repo1))),
              pre @ snd (snd (notify_on_changes env f repo1)))"
    by blast
  have quiet: "notifications pre = []"
    using pre by (rule notifications_prefix)
  have a: "get_commit_hash repo1 (source_branch f) (remote_name f) = Inr (Some h) \<and>
          get_local_branch repo1 (source_branch f) = Inr None \<and>
          branches_remote repo1 (remote_name f @ ''/'' @ source_branch f) = None
          \<longrightarrow> notify_on_changes env f repo1 = (Inl RuntimeError, repo1, [])"
    by (simp add: notify_branch_not_found)
  have b: "get_commit_hash repo1 (source_branch f) (remote_name f) = Inr None
          \<longrightarrow> notify_on_changes env f repo1 = (Inr (), repo1, [Log ERROR])"
    by (simp add: notify_unresolved)
  have c: "get_commit_hash repo1 (source_branch f) (remote_name f) = Inr (Some h) \<and>
          get_local_branch repo1 (source_branch f) = Inr (Some ref) \<and>
          on_update env (Some (snd ref)) h = Some e
          \<longrightarrow> fst (notify_on_changes env f repo1) = Inl e"
    using notify_existing [of repo1 f h "fst ref" "snd ref" env] by auto
  from a b c show ?thesis
    unfolding run using quiet by (auto simp: notifications_append)
qed

theorem branch_not_found_propagated_witness:
  "change_detection_on quiet_remote policy_source None False clone_with_tag clone_with_tag \<and>
   get_local_branch clone_with_tag ''main'' = Inr None \<and>
   branches_remote clone_with_tag ''origin/main'' = None \<and>
   fst (fetch_and_notify_on_changes quiet_remote policy_source None False (RepoDir clone_with_tag))
     = Inl RuntimeError \<and>
   change_detection_on quiet_remote policy_source None False clone_without_main
     clone_without_main \<and>
   fst (fetch_and_notify_on_changes quiet_remote policy_source None False
          (RepoDir clone_without_main)) = Inr () \<and>
   change_detection_on failing_callback policy_source None False clone_behind clone_behind \<and>
   fst (fetch_and_notify_on_changes failing_callback policy_source None False
          (RepoDir clone_behind)) = Inl (OtherException ''callback failed'')"
proof -
  have cd1: "change_detection_on quiet_remote policy_source None False clone_with_tag clone_with_tag"
    by (simp add: change_detection_on_def fetcher_defs library_defs example_defs)
  have h1: "get_commit_hash clone_with_tag (source_branch policy_source) (remote_name policy_source)
              = Inr (Some ''c1'') \<and>
            get_local_branch clone_with_tag (source_branch policy_source) = Inr None \<and>
            branches_remote clone_with_tag
              (remote_name policy_source @ ''/'' @ source_branch policy_source) = None"
    by (simp add: fetcher_defs library_defs example_defs)
  have cd2: "change_detection_on quiet_remote policy_source None False clone_without_main
               clone_without_main"
    by (simp add: change_detection_on_def fetcher_defs library_defs example_defs)
  have h2: "get_commit_hash clone_without_main (source_branch policy_source)
              (remote_name policy_source) = Inr None"
    by (simp add: fetcher_defs library_defs example_defs)
  have cd3: "change_detection_on failing_callback policy_source None False clone_behind clone_behind"
    by (simp add: change_detection_on_def fetcher_defs library_defs example_defs)
  have h3: "get_commit_hash clone_behind (source_branch policy_source) (remote_name policy_source)
              = Inr (Some ''c2'') \<and>
            get_local_branch clone_behind (source_branch policy_source)
              = Inr (Some (''refs/heads/main'', ''c1'')) \<and>
            on_update failing_callback (Some (snd (''refs/heads/main'', ''c1''))) ''c2''
              = Some (OtherException ''callback failed'')"
    by (simp add: fetcher_defs library_defs example_defs)
  have names: "source_branch policy_source = ''main''"
      "remote_name policy_source @ ''/'' @ source_branch policy_source = ''origin/main''"
    by (simp_all add: policy_source_def)
  from branch_not_found_propagated [OF cd1, where h = "''c1''"] h1
  have r1: "fst (fetch_and_notify_on_changes quiet_remote policy_source None False
                   (RepoDir clone_with_tag)) = Inl RuntimeError"
    by blast
  from branch_not_found_propagated [OF cd2] h2
  have r2: "fst (fetch_and_notify_on_changes quiet_remote policy_source None False
                   (RepoDir clone_without_main)) = Inr ()"
    by blast
  from branch_not_found_propagated [OF cd3, where h = "''c2''"
         and ref = "(''refs/heads/main'', ''c1'')" and e = "OtherException ''callback failed''"] h3
  have r3: "fst (fetch_and_notify_on_changes failing_callback policy_source None False
                   (RepoDir clone_behind)) = Inl (OtherException ''callback failed'')"
    by blast
  from cd1 h1 r1 cd2 r2 cd3 r3 names show ?thesis by simp
qed

text \<open>
  The claim as stated fails twice. On a valid clone that knows the tracked branch neither
  locally nor among the remote's branches, the cycle ends without raising (the head does
  not resolve, and the cycle stops there); and a callback that raises makes the cycle
  raise an error that is not "branch not found".
\<close>

theorem branch_not_found_counterexample:
  "get_local_branch clone_without_main ''main'' = Inr None \<and>
   branches_remote clone_without_main ''origin/main'' = None \<and>
   fst (fetch_and_notify_on_changes quiet_remote policy_source None False
          (RepoDir clone_without_main)) = Inr () \<and>
   fst (fetch_and_notify_on_changes failing_callback policy_source None False
          (RepoDir clone_behind)) = Inl (OtherException ''callback failed'')"
  by (simp add: fetcher_defs library_defs example_defs)

subsection \<open>Synchronize: the tracking ref and the callback\<close>

text \<open>
  Claim C5, amended. In every cycle on a valid clone that reaches change detection with
  the tracking ref present, the tracking ref is set to the new revision only after the
  callback has completed: the write is the last step, right after the call, and nothing
  writes the ref before. If the callback raises, its error reaches the caller and the
  clone, tracking ref included, is as change detection found it.
\<close>

theorem tracking_ref_advances_after_callback:
  assumes "change_detection_on env f hinted_hash force_fetch repo repo1"
    and "get_commit_hash repo1 (source_branch f) (remote_name f) = Inr (Some new)"
    and "get_local_branch repo1 (source_branch f) = Inr (Some (name, old))"
  shows "(on_update env (Some old) new = Some e \<longrightarrow>
            (\<exists>tr. fetch_and_notify_on_changes env f hinted_hash force_fetch (RepoDir repo)
                     = (Inl e, RepoDir repo1, tr) \<and>
                  (\<forall>n c. SetTarget n c \<notin> set tr)))
       \<and> (on_update env (Some old) new = None \<longrightarrow>
            (\<exists>pre. fetch_and_notify_on_changes env f hinted_hash force_fetch (RepoDir repo)
                     = (Inr (), RepoDir (set_target repo1 (name, old) new),
                        pre @ [OnUpdate (Some old) new, SetTarget name new]) \<and>
                   (\<forall>n c. SetTarget n c \<notin> set pre)) \<and>
            get_local_branch (set_target repo1 (name, old) new) (source_branch f)
              = Inr (Some (name, new)))"
proof -
  from sync_change_detection [OF assms(1)] obtain pre where
    pre: "\<forall>e \<in> set pre. e = Log DEBUG \<or> e = Log INFO \<or> e = Fetch (remote_name f)"
    and run: "fetch_and_notify_on_changes env f hinted_hash force_fetch (RepoDir repo) =
             (fst (notify_on_changes env f repo1),
              RepoDir (fst (snd (notify_on_changes env f repo1))),
              pre @ snd (snd (notify_on_changes env f repo1)))"
    by blast
  have no_set: "\<forall>n c. SetTarget n c \<notin> set pre"
    using pre by auto
  note n = notify_existing [OF assms(2,3), of env]
  from get_local_branch_Some [OF assms(3)]
  have after: "get_local_branch (set_target repo1 (name, old) new) (source_branch f)
                 = Inr (Some (name, new))"
    by (simp add: get_local_branch_def lookup_reference_def set_target_def update_conv')
  show ?thesis
  proof (cases "on_update env (Some old) new")
    case None
    with n run no_set after show ?thesis by auto
  next
    case (Some e')
    with n run no_set show ?thesis by auto
  qed
qed

theorem tracking_ref_advances_after_callback_witness:
  "change_detection_on failing_callback policy_source None False clone_behind clone_behind \<and>
   get_local_branch clone_behind ''main'' = Inr (Some (''refs/heads/main'', ''c1'')) \<and>
   fetch_and_notify_on_changes failing_callback policy_source None False (RepoDir clone_behind)
     = (Inl (OtherException ''callback failed''), RepoDir clone_behind,
        [Log DEBUG, Log DEBUG, OnUpdate (Some ''c1'') ''c2'']) \<and>
   change_detection_on quiet_remote policy_source None False clone_behind clone_behind \<and>
   fst (fetch_and_notify_on_changes quiet_remote policy_source None False (RepoDir clone_behind))
     = Inr () \<and>
   get_local_branch (set_target clone_behind (''refs/heads/main'', ''c1'') ''c2'') ''main''
     = Inr (Some (''refs/heads/main'', ''c2''))"
proof -
  have cd1: "change_detection_on failing_callback policy_source None False clone_behind clone_behind"
    by (simp add: change_detection_on_def fetcher_defs library_defs example_defs)
  have cd2: "change_detection_on quiet_remote policy_source None False clone_behind clone_behind"
    by (simp add: change_detection_on_def fetcher_defs library_defs example_defs)
  have hd: "get_commit_hash clone_behind (source_branch policy_source) (remote_name policy_source)
              = Inr (Some ''c2'')"
    by (simp add: fetcher_defs library_defs example_defs)
  have lb: "get_local_branch clone_behind (source_branch policy_source)
              = Inr (Some (''refs/heads/main'', ''c1''))"
    by (simp add: fetcher_defs library_defs example_defs)
  have raises: "on_update failing_callback (Some ''c1'') ''c2''
                  = Some (OtherException ''callback failed'')"
    by (simp add: failing_callback_def)
  have completes: "on_update quiet_remote (Some ''c1'') ''c2'' = None"
    by (simp add: quiet_remote_def)
  have name: "source_branch policy_source = ''main''"
    by (simp add: policy_source_def)
  from tracking_ref_advances_after_callback [OF cd1 hd lb,
         where e = "OtherException ''callback failed''"] raises
  obtain tr where
    "fetch_and_notify_on_changes failing_callback policy_source None False (RepoDir clone_behind)
       = (Inl (OtherException ''callback failed''), RepoDir clone_behind, tr)"
    by blast
  then have r1:
    "fetch_and_notify_on_changes failing_callback policy_source None False (RepoDir clone_behind)
     = (Inl (OtherException ''callback failed''), RepoDir clone_behind,
        [Log DEBUG, Log DEBUG, OnUpdate (Some ''c1'') ''c2''])"
    by (simp add: fetcher_defs library_defs example_defs)
  from tracking_ref_advances_after_callback [OF cd2 hd lb] completes
  have r2: "fst (fetch_and_notify_on_changes quiet_remote policy_source None False
                   (RepoDir clone_behind)) = Inr () \<and>
            get_local_branch (set_target clone_behind (''refs/heads/main'', ''c1'') ''c2'')
              (source_branch policy_source) = Inr (Some (''refs/heads/main'', ''c2''))"
    by auto
  from cd1 cd2 lb r1 r2 name show ?thesis by simp
qed

text \<open>
  The claim as stated, for every cycle, fails where the tracking ref does not exist yet: it
  is created, at the commit of the remote branch, before the callback is called. With a
  callback that raises, the clone is left with a tracking ref at the new revision where it
  had none.
\<close>

theorem tracking_ref_created_before_callback:
  "get_local_branch clone_new_branch ''main'' = Inr None \<and>
   fetch_and_notify_on_changes failing_callback policy_source None False (RepoDir clone_new_branch)
     = (Inl (OtherException ''callback failed''),
        RepoDir (clone_new_branch
                  \<lparr>references := references clone_new_branch @ [(''refs/heads/main'', ''c2'')]\<rparr>),
        [Log DEBUG, Log DEBUG, Log DEBUG, CreateReference ''refs/heads/main'' ''c2'',
         OnUpdate None ''c2'']) \<and>
   get_local_branch
     (clone_new_branch
        \<lparr>references := references clone_new_branch @ [(''refs/heads/main'', ''c2'')]\<rparr>) ''main''
     = Inr (Some (''refs/heads/main'', ''c2''))"
  by (simp add: fetcher_defs library_defs example_defs)

subsection \<open>Synchronize: repeated cycles on an unchanged head\<close>

lemma sync_when_synced:
  assumes "fst (verify_found_repo_matches_remote (remotes repo) (source_url f)) = Inr ()"
    and "has_remote_branch repo (source_branch f) (remote_name f) = Inr True"
    and "get_commit_hash repo (source_branch f) (remote_name f) = Inr (Some h)"
    and "get_local_branch repo (source_branch f) = Inr (Some (name, h))"
  shows "fetch_and_notify_on_changes env f None False (RepoDir repo) =
     ((case on_update env (Some h) h of Some e \<Rightarrow> Inl e | None \<Rightarrow> Inr ()),
      RepoDir repo,
      [Log DEBUG, Log DEBUG, OnUpdate (Some h) h] @
      (case on_update env (Some h) h of Some e \<Rightarrow> [] | None \<Rightarrow> [SetTarget name h]))"
proof -
  from get_local_branch_Some [OF assms(4)]
  have "map_of (references repo) name = Some h"
    by (rule conjunct2)
  then have "AList.update name h (references repo) = references repo"
    by (rule update_triv)
  then have same: "set_target repo (name, h) h = repo"
    by (simp add: set_target_def)
  from assms(2) have sf: "should_fetch f repo None False = (Inr False, [])"
    by (simp add: should_fetch_def)
  from verify_ok [OF assms(1)] sf notify_existing [OF assms(3,4), of env] same
  show ?thesis
    by (auto simp: fetch_and_notify_on_changes_def discover_repository_def
          get_valid_repo_def Repository_def split: option.splits)
qed

text \<open>
  Claim C2, amended. Take a valid clone on which the tracked branch is present among the
  remote's branches and the tracking ref already equals the head \<open>h\<close> of the tracked
  branch (the state a completed notification for \<open>h\<close> leaves). Then in every sequence of
  synchronize cycles with no hint and no force, each cycle fetches nothing, leaves the
  clone as it is and calls the callback exactly once, with old revision and new revision
  both \<open>h\<close>: the callback is called in every cycle, and after the first notification for a
  head no later call reports a change.
\<close>

theorem repeated_synchronize_same_head:
  assumes "fst (verify_found_repo_matches_remote (remotes repo) (source_url f)) = Inr ()"
    and "has_remote_branch repo (source_branch f) (remote_name f) = Inr True"
    and "get_commit_hash repo (source_branch f) (remote_name f) = Inr (Some h)"
    and "get_local_branch repo (source_branch f) = Inr (Some (name, h))"
  shows "fst (synchronize_repeatedly env f n (RepoDir repo)) = RepoDir repo \<and>
         notifications (snd (synchronize_repeatedly env f n (RepoDir repo)))
           = replicate n (Some h, h) \<and>
         (\<forall>r. Fetch r \<notin> set (snd (synchronize_repeatedly env f n (RepoDir repo))))"
proof (induction n)
  case 0
  show ?case by simp
next
  case (Suc n)
  obtain d tr where rest: "synchronize_repeatedly env f n (RepoDir repo) = (d, tr)"
    by (cases "synchronize_repeatedly env f n (RepoDir repo)")
  with Suc show ?case
    by (auto simp: sync_when_synced [OF assms] notifications_append split: option.splits)
qed

theorem repeated_synchronize_same_head_witness:
  "fst (verify_found_repo_matches_remote (remotes clone_at_c1) (source_url policy_source))
     = Inr () \<and>
   has_remote_branch clone_at_c1 ''main'' ''origin'' = Inr True \<and>
   get_commit_hash clone_at_c1 ''main'' ''origin'' = Inr (Some ''c1'') \<and>
   get_local_branch clone_at_c1 ''main'' = Inr (Some (''refs/heads/main'', ''c1'')) \<and>
   notifications (snd (synchronize_repeatedly quiet_remote policy_source 3 (RepoDir clone_at_c1)))
     = [(Some ''c1'', ''c1''), (Some ''c1'', ''c1''), (Some ''c1'', ''c1'')]"
proof -
  have v: "fst (verify_found_repo_matches_remote (remotes clone_at_c1)
                  (source_url policy_source)) = Inr ()"
    by (simp add: example_defs)
  have p: "has_remote_branch clone_at_c1 (source_branch policy_source)
             (remote_name policy_source) = Inr True"
    by (simp add: fetcher_defs library_defs example_defs)
  have hd: "get_commit_hash clone_at_c1 (source_branch policy_source)
              (remote_name policy_source) = Inr (Some ''c1'')"
    by (simp add: fetcher_defs library_defs example_defs)
  have lb: "get_local_branch clone_at_c1 (source_branch policy_source)
              = Inr (Some (''refs/heads/main'', ''c1''))"
    by (simp add: fetcher_defs library_defs example_defs)
  have names: "source_branch policy_source = ''main''" "remote_name policy_source = ''origin''"
    by (simp_all add: policy_source_def)
  from repeated_synchronize_same_head [OF v p hd lb, of quiet_remote 3]
  have "notifications (snd (synchronize_repeatedly quiet_remote policy_source 3
                              (RepoDir clone_at_c1)))
          = [(Some ''c1'', ''c1''), (Some ''c1'', ''c1''), (Some ''c1'', ''c1'')]"
    by (simp add: numeral_3_eq_3)
  with v p hd lb names show ?thesis by simp
qed

text \<open>
  The claim as stated, that the callback is called at most once, fails: the code calls it
  in every cycle in which the head resolves and compares nothing. Two cycles from an absent
  clone, with the head at \<open>c1\<close> throughout, call it twice.
\<close>

theorem repeated_synchronize_counterexample:
  "fst (synchronize_repeatedly quiet_remote policy_source (Suc 0) NoDir) = RepoDir clone_at_c1 \<and>
   get_commit_hash clone_at_c1 ''main'' ''origin'' = Inr (Some ''c1'') \<and>
   fst (synchronize_repeatedly quiet_remote policy_source (Suc (Suc 0)) NoDir) = RepoDir clone_at_c1 \<and>
   notifications (snd (synchronize_repeatedly quiet_remote policy_source (Suc (Suc 0)) NoDir))
     = [(None, ''c1''), (Some ''c1'', ''c1'')]"
  by (simp add: fetcher_defs library_defs example_defs)

end
